theory Spec2Isabelle
  imports Main "HOL-Library.Word"
begin

section \<open>JavaScript values and their textual form\<close>

text \<open>
  A JavaScript string is a sequence of 16-bit code units, and its \<open>length\<close> counts
  code units. \<open>js\<close> writes a text of one-byte characters as such a string.
\<close>

type_synonym code_unit = "16 word"
type_synonym jsstring = "code_unit list"

definition js :: "string \<Rightarrow> jsstring" where
  "js s = map of_char s"

text \<open>
  The values that reach \<open>echoTag\<close>: the primitive values that string concatenation
  turns into text. \<open>JSNumber n\<close> is an integer-valued number from \<open>- 2 ^ 53\<close> to
  \<open>2 ^ 53 - 1\<close>, held as a signed 54-bit word: each of these is a number of the
  language, and each is printed as its plain decimal numeral. A Symbol (whose
  concatenation throws) is not a value of this type; an object (whose concatenation
  runs the object's own \<open>toString\<close>) is an \<open>operand\<close>, further down.
\<close>

type_synonym safe_integer = "54 word"

datatype jsvalue =
    JSUndefined
  | JSNull
  | JSBoolean bool
  | JSNumber safe_integer
  | JSString jsstring

definition digit :: "nat \<Rightarrow> char" where
  "digit d = ''0123456789'' ! d"

fun digits :: "nat \<Rightarrow> string" where
  "digits n = (if n < 10 then [digit n] else digits (n div 10) @ [digit (n mod 10)])"

declare digits.simps [simp del]

text \<open>
  The decimal numeral of such an integer, as \<open>Number.prototype.toString\<close> prints it.
\<close>

definition Number_toString :: "safe_integer \<Rightarrow> jsstring" where
  "Number_toString n =
     js (if sint n < 0 then CHR ''-'' # digits (nat (- sint n)) else digits (nat (sint n)))"

text \<open>The abstract operation \<open>ToString\<close> that \<open>+\<close> applies to a non-string operand.\<close>

fun ToString :: "jsvalue \<Rightarrow> jsstring" where
  "ToString JSUndefined = js ''undefined''"
| "ToString JSNull = js ''null''"
| "ToString (JSBoolean b) = js (if b then ''true'' else ''false'')"
| "ToString (JSNumber n) = Number_toString n"
| "ToString (JSString s) = s"

text \<open>
  Reading \<open>a[k]\<close>: an index outside the array (also \<open>-1\<close>) reads \<open>undefined\<close>;
  nothing is raised.
\<close>

definition array_get :: "jsvalue list \<Rightarrow> int \<Rightarrow> jsvalue" where
  "array_get a k = (if 0 \<le> k \<and> k < int (length a) then a ! nat k else JSUndefined)"

text \<open>\<open>s += v\<close> on a string \<open>s\<close>: the new value of \<open>s\<close>.\<close>

definition add_assign :: "jsstring \<Rightarrow> jsvalue \<Rightarrow> jsstring" where
  "add_assign s v = s @ ToString v"

section \<open>The tag function \<open>echoTag\<close>\<close>

text \<open>
  The error kinds: \<open>LengthMismatch\<close> is the one kind of the specification,
  \<open>ReferenceError\<close> is what the runtime raises for an identifier that is not bound.
\<close>

datatype error = LengthMismatch | ReferenceError string

text \<open>
  The variables of one call: the two parameters and the two locals. The record is
  extensible, and the statements below leave its \<open>more\<close> part alone.
  \<^verbatim>\<open>
  function echoTag(literals, ...substitutions) {
      let result = "";
      for (let i = 0; i < substitutions.length; i++) {
          result += literals[i];
          result += substitutions[i];
      }
      // add the last literal.
      result += literals[literals.length - 1];
      return result
  }
  \<close>
\<close>

record frame =
  literals :: "jsvalue list"
  substitutions :: "jsvalue list"
  result :: jsstring
  i :: nat

text \<open>One round of the loop: the two statements of its body, then \<open>i++\<close>.\<close>

definition loop_body :: "'w frame_scheme \<Rightarrow> 'w frame_scheme" where
  "loop_body f =
     (let f1 = f\<lparr>result := add_assign (result f) (array_get (literals f) (int (i f)))\<rparr>;
          f2 = f1\<lparr>result := add_assign (result f1) (array_get (substitutions f1) (int (i f1)))\<rparr>
      in f2\<lparr>i := i f2 + 1\<rparr>)"

function echoTag_loop :: "'w frame_scheme \<Rightarrow> 'w frame_scheme" where
  "echoTag_loop f =
     (if i f < length (substitutions f) then echoTag_loop (loop_body f) else f)"
  by pat_completeness auto
termination
  by (relation "measure (\<lambda>f. length (substitutions f) - i f)")
     (auto simp: loop_body_def Let_def)

declare echoTag_loop.simps [simp del]

text \<open>
  A call, started with \<open>w\<close> as the frame's \<open>more\<close> part: the frame when \<open>return\<close>
  is reached.
\<close>

definition echoTag_call :: "'w \<Rightarrow> jsvalue list \<Rightarrow> jsvalue list \<Rightarrow> 'w frame_scheme" where
  "echoTag_call w ls ss =
     (let f0 = \<lparr>literals = ls, substitutions = ss, result = [], i = 0, \<dots> = w\<rparr>;
          f1 = echoTag_loop f0
      in f1\<lparr>result :=
            add_assign (result f1)
              (array_get (literals f1) (int (length (literals f1)) - 1))\<rparr>)"

text \<open>The function has no \<open>throw\<close>: every call completes with the value of \<open>result\<close>.\<close>

definition echoTag :: "jsvalue list \<Rightarrow> jsvalue list \<Rightarrow> error + jsstring" where
  "echoTag ls ss = Inr (result (echoTag_call () ls ss))"

text \<open>
  A tagged template passes its literal text as an array of strings: the fragments
  of the specification.
\<close>

definition fragments :: "jsstring list \<Rightarrow> jsvalue list" where
  "fragments fs = map JSString fs"

text \<open>What round \<open>k\<close> of the loop appends to \<open>result\<close>.\<close>

definition piece :: "jsvalue list \<Rightarrow> jsvalue list \<Rightarrow> nat \<Rightarrow> jsstring" where
  "piece ls ss k = ToString (array_get ls (int k)) @ ToString (array_get ss (int k))"

section \<open>The renderer of the specification\<close>

text \<open>
  Written from the specification's words (section 4.1), for the comparison with
  \<open>echoTag\<close>: start from the empty accumulator; for each index from 0 to N-2 append
  the fragment, then the textual form of the substitution; then append the final
  fragment.
\<close>

definition render_spec :: "jsstring list \<Rightarrow> jsvalue list \<Rightarrow> jsstring" where
  "render_spec fs ss =
     foldl (\<lambda>acc k. (acc @ fs ! k) @ ToString (ss ! k)) [] [0..<length fs - 1]
       @ fs ! (length fs - 1)"

text \<open>
  What a read of \<open>literals[k]\<close> contributes to the result: the text of the element,
  and the text \<open>undefined\<close> outside the array.
\<close>

definition literal_text :: "jsvalue list \<Rightarrow> int \<Rightarrow> jsstring" where
  "literal_text ls k =
     (if 0 \<le> k \<and> k < int (length ls) then ToString (ls ! nat k) else js ''undefined'')"

section \<open>A call in a program state\<close>

text \<open>
  What a call can reach outside its two arrays. A read \<open>a[k]\<close> outside the array
  goes on to the properties that arrays inherit, \<open>Array_prototype\<close>, which a
  program may have set; \<open>heap\<close> is the rest of the program's state.
\<close>

record 'h host =
  Array_prototype :: "int \<rightharpoonup> jsvalue"
  heap :: 'h

text \<open>
  An element of the two arrays: a primitive value, or an object, given by its
  conversion to text. The conversion is code of the caller (the object's
  \<open>toString\<close>): it reads the program state and may change it. The conversions
  here return a string and hold no reference to the two arrays.
\<close>

datatype 'h operand =
    Primitive jsvalue
  | Object "'h host \<Rightarrow> jsstring \<times> 'h host"

definition ToString_in :: "'h operand \<Rightarrow> 'h host \<Rightarrow> jsstring \<times> 'h host" where
  "ToString_in v w =
     (case v of Primitive p \<Rightarrow> (ToString p, w) | Object toString \<Rightarrow> toString w)"

definition array_read :: "'h host \<Rightarrow> 'h operand list \<Rightarrow> int \<Rightarrow> 'h operand" where
  "array_read w a k =
     (if 0 \<le> k \<and> k < int (length a) then a ! nat k
      else case Array_prototype w k of
             None \<Rightarrow> Primitive JSUndefined
           | Some p \<Rightarrow> Primitive p)"

definition add_assign_in :: "jsstring \<Rightarrow> 'h operand \<Rightarrow> 'h host \<Rightarrow> jsstring \<times> 'h host" where
  "add_assign_in s v w = (case ToString_in v w of (t, w') \<Rightarrow> (s @ t, w'))"

text \<open>The loop of \<open>echoTag\<close> from round \<open>k\<close>, with \<open>result\<close> and the program state.\<close>

function echoTag_loop_in ::
  "'h operand list \<Rightarrow> 'h operand list \<Rightarrow> nat \<Rightarrow> jsstring \<Rightarrow> 'h host \<Rightarrow> jsstring \<times> 'h host"
where
  "echoTag_loop_in ls ss k res w =
     (if k < length ss then
        (case add_assign_in res (array_read w ls (int k)) w of
           (r1, w1) \<Rightarrow>
             (case add_assign_in r1 (array_read w1 ss (int k)) w1 of
                (r2, w2) \<Rightarrow> echoTag_loop_in ls ss (k + 1) r2 w2))
      else (res, w))"
  by pat_completeness auto
termination
  by (relation "measure (\<lambda>(ls, ss, k, res, w). length ss - k)") auto

declare echoTag_loop_in.simps [simp del]

definition echoTag_in ::
  "'h operand list \<Rightarrow> 'h operand list \<Rightarrow> 'h host \<Rightarrow> (error + jsstring) \<times> 'h host"
where
  "echoTag_in ls ss w =
     (case echoTag_loop_in ls ss 0 [] w of
        (r, w1) \<Rightarrow>
          (case add_assign_in r (array_read w1 ls (int (length ls) - 1)) w1 of
             (r', w2) \<Rightarrow> (Inr r', w2)))"

text \<open>
  An object a caller may pass, \<^verbatim>\<open>{ toString() { return String(++count) } }\<close>, in a
  program whose state is the counter.
\<close>

definition ticking :: "nat operand" where
  "ticking = Object (\<lambda>w. (js (digits (Suc (heap w))), w\<lparr>heap := Suc (heap w)\<rparr>))"

section \<open>The component \<open>Hello\<close>\<close>

text \<open>
  \<^verbatim>\<open>
  export interface HelloProps { compiler: string; framework: string; };
  export class Hello extends React.Component<HelloProps, {}> {
      render() {
          return <h1>Hello from {props.compiler} and {props.framework}!</h1>;
      }
  }
  \<close>
  The body of \<open>render\<close> reads the identifier \<open>props\<close>, not the property
  \<open>this.props\<close>. An identifier is resolved in the scopes around it: \<open>render\<close>
  has no parameter and no local, the module binds \<open>React\<close> and \<open>Hello\<close>, and
  the global scope is whatever the host provides.
\<close>

record HelloProps =
  compiler :: jsstring
  framework :: jsstring

record Hello =
  props :: HelloProps

record element =
  tag :: string
  children :: "jsvalue list"

type_synonym object = "string \<rightharpoonup> jsvalue"
type_synonym scope = "string \<rightharpoonup> object"

definition module_scope :: scope where
  "module_scope = [''React'' \<mapsto> Map.empty, ''Hello'' \<mapsto> Map.empty]"

text \<open>Reading \<open>o.p\<close>: a property that is absent reads \<open>undefined\<close>.\<close>

definition property :: "object \<Rightarrow> string \<Rightarrow> jsvalue" where
  "property obj p = (case obj p of None \<Rightarrow> JSUndefined | Some v \<Rightarrow> v)"

text \<open>Resolving an identifier: the module's bindings first, then the global ones.\<close>

definition resolve :: "scope \<Rightarrow> string \<Rightarrow> error + object" where
  "resolve globals x =
     (case (globals ++ module_scope) x of
        None \<Rightarrow> Inl (ReferenceError x)
      | Some obj \<Rightarrow> Inr obj)"

definition Hello_render :: "scope \<Rightarrow> Hello \<Rightarrow> error + element" where
  "Hello_render globals this =
     (case resolve globals ''props'' of
        Inl e \<Rightarrow> Inl e
      | Inr p1 \<Rightarrow>
          (case resolve globals ''props'' of
             Inl e \<Rightarrow> Inl e
           | Inr p2 \<Rightarrow>
               Inr \<lparr>tag = ''h1'',
                    children =
                      [JSString (js ''Hello from ''), property p1 ''compiler'',
                       JSString (js '' and ''), property p2 ''framework'',
                       JSString (js ''!'')]\<rparr>))"

section \<open>What a call computes\<close>

lemma loop_body_eq:
  "loop_body f =
     f\<lparr>result := result f @ piece (literals f) (substitutions f) (i f), i := Suc (i f)\<rparr>"
  by (simp add: loop_body_def Let_def add_assign_def piece_def)

text \<open>
  The loop, started at any index and accumulator: it appends the pieces of the
  rounds that are left and touches nothing else. Computation induction, one case
  per round.
\<close>

lemma echoTag_loop_eq:
  "echoTag_loop f =
     f\<lparr>result :=
         result f @
         concat (map (piece (literals f) (substitutions f)) [i f ..< length (substitutions f)]),
       i := max (i f) (length (substitutions f))\<rparr>"
proof (induction f rule: echoTag_loop.induct)
  case (1 f)
  show ?case
  proof (cases "i f < length (substitutions f)")
    case True
    have "echoTag_loop f = echoTag_loop (loop_body f)"
      using True by (simp add: echoTag_loop.simps [of f])
    also note "1.IH" [OF True]
    finally show ?thesis
      using True by (simp add: loop_body_eq upt_conv_Cons [of "i f"] max_def)
  next
    case False
    then show ?thesis
      by (simp add: echoTag_loop.simps [of f] max_def)
  qed
qed

lemma echoTag_call_eq:
  "echoTag_call w ls ss =
     \<lparr>literals = ls, substitutions = ss,
      result =
        concat (map (piece ls ss) [0..<length ss]) @
        ToString (array_get ls (int (length ls) - 1)),
      i = length ss, \<dots> = w\<rparr>"
  by (simp add: echoTag_call_def Let_def echoTag_loop_eq add_assign_def)

lemma echoTag_eq:
  "echoTag ls ss =
     Inr (concat (map (piece ls ss) [0..<length ss]) @
          ToString (array_get ls (int (length ls) - 1)))"
  by (simp add: echoTag_def echoTag_call_eq)

lemma literal_text_eq: "ToString (array_get ls k) = literal_text ls k"
  by (simp add: array_get_def literal_text_def)

lemma piece_eq:
  "k < length ss \<Longrightarrow> piece ls ss k = literal_text ls (int k) @ ToString (ss ! k)"
  by (simp add: piece_def literal_text_eq [symmetric] array_get_def)

lemma foldl_append_concat:
  "foldl (\<lambda>acc k. acc @ g k) a ks = a @ concat (map g ks)"
  by (induction ks arbitrary: a) simp_all

lemma pieces_fragments:
  assumes "length ss \<le> length fs"
  shows "map (piece (fragments fs) ss) [0..<length ss] =
         map2 (\<lambda>f s. f @ ToString s) (take (length ss) fs) ss"
  using assms
  by (intro nth_equalityI) (simp_all add: piece_def array_get_def fragments_def)

lemma length_concat_map2:
  "length xs = length ys \<Longrightarrow>
   length (concat (map2 (\<lambda>f s. f @ ToString s) xs ys)) =
   sum_list (map length xs) + sum_list (map (length \<circ> ToString) ys)"
  by (induction xs ys rule: list_induct2) simp_all

text \<open>With at least one fragment more than substitutions, every read is in range.\<close>

lemma echoTag_fragments_eq:
  assumes "length ss < length fs"
  shows "echoTag (fragments fs) ss =
     Inr (concat (map2 (\<lambda>f s. f @ ToString s) (take (length ss) fs) ss) @ last fs)"
proof -
  have "ToString (array_get (fragments fs) (int (length (fragments fs)) - 1)) = last fs"
    using assms
    by (cases fs rule: rev_cases) (simp_all add: array_get_def fragments_def nth_append)
  then show ?thesis
    using assms by (simp add: echoTag_eq pieces_fragments)
qed

section \<open>A call on primitive values, in a program state\<close>

lemma array_read_Primitive:
  assumes "(0 \<le> k \<and> k < int (length ls)) \<or> Array_prototype w = Map.empty"
  shows "array_read w (map Primitive ls) k = Primitive (array_get ls k)"
  using assms by (auto simp: array_read_def array_get_def)

lemma add_assign_in_Primitive:
  "add_assign_in s (Primitive p) w = (s @ ToString p, w)"
  by (simp add: add_assign_in_def ToString_in_def)

text \<open>
  The loop from round \<open>k\<close>, by induction on the number of rounds that are left:
  when no read leaves the array, or arrays inherit nothing, the loop appends the
  pieces that \<open>echoTag_loop\<close> appends and hands the state back as it was.
\<close>

lemma echoTag_loop_in_Primitive:
  assumes "length ss \<le> length ls \<or> Array_prototype w = Map.empty"
  shows "echoTag_loop_in (map Primitive ls) (map Primitive ss) k res w =
     (res @ concat (map (piece ls ss) [k..<length ss]), w)"
  using assms
proof (induction "length ss - k" arbitrary: k res)
  case 0
  then show ?case
    by (simp add: echoTag_loop_in.simps [of _ _ k])
next
  case (Suc n)
  then have k: "k < length ss" and n: "n = length ss - Suc k"
    by simp_all
  have lit: "array_read w (map Primitive ls) (int k) = Primitive (array_get ls (int k))"
    using k Suc.prems by (intro array_read_Primitive) auto
  have sub: "array_read w (map Primitive ss) (int k) = Primitive (array_get ss (int k))"
    using k by (intro array_read_Primitive) auto
  show ?case
    using k Suc.hyps(1) [OF n Suc.prems]
    by (simp add: echoTag_loop_in.simps [of _ _ k] lit sub add_assign_in_Primitive
        piece_def upt_conv_Cons [of k])
qed

section \<open>The claims\<close>

text \<open>
  C1, as the specification has it: when the number of fragments is not the number of
  substitutions plus one, the call fails with \<open>LengthMismatch\<close>. The function has no
  such check. With two fragments and two substitutions the lengths do not fit, and
  the call returns the string \<open>aXbYb\<close>.
\<close>

theorem echoTag_LengthMismatch_counterexample:
  "length [js ''a'', js ''b''] \<noteq> length [JSString (js ''X''), JSString (js ''Y'')] + 1 \<and>
   echoTag (fragments [js ''a'', js ''b'']) [JSString (js ''X''), JSString (js ''Y'')]
     \<noteq> Inl LengthMismatch \<and>
   echoTag (fragments [js ''a'', js ''b'']) [JSString (js ''X''), JSString (js ''Y'')]
     = Inr (js ''aXbYb'')"
  by (simp add: echoTag_eq fragments_def piece_def array_get_def upt_rec js_def)

text \<open>
  C1, amended: for every pair of inputs, whether or not the lengths fit, the call
  does not fail with \<open>LengthMismatch\<close>, nor with any other error: it returns a string.
\<close>

theorem echoTag_never_LengthMismatch:
  "echoTag ls ss \<noteq> Inl LengthMismatch \<and> (\<forall>e. echoTag ls ss \<noteq> Inl e) \<and>
   (\<exists>s. echoTag ls ss = Inr s)"
  by (simp add: echoTag_def)

theorem echoTag_never_LengthMismatch_witness:
  "echoTag (fragments [js ''p'', js ''q'']) [JSNull, JSNull] \<noteq> Inl LengthMismatch \<and>
   (\<exists>s. echoTag (fragments [js ''p'', js ''q'']) [JSNull, JSNull] = Inr s)"
  using echoTag_never_LengthMismatch [of "fragments [js ''p'', js ''q'']" "[JSNull, JSNull]"]
  by simp

text \<open>
  C2: when there is exactly one fragment more than substitutions, \<open>echoTag\<close> returns
  the string of the specification's algorithm: from the empty accumulator, fragment
  \<open>k\<close> and then the text of substitution \<open>k\<close> for every \<open>k\<close> up to \<open>N - 2\<close>, and the
  last fragment at the end. That string is the fragments and the texts of the
  substitutions in their order, each as it is.
\<close>

theorem echoTag_render_spec:
  assumes "length fs = length ss + 1"
  shows "echoTag (fragments fs) ss = Inr (render_spec fs ss) \<and>
         render_spec fs ss =
           concat (map2 (\<lambda>f s. f @ ToString s) (butlast fs) ss) @ last fs"
proof -
  from assms obtain gs g where fs: "fs = gs @ [g]" and len: "length gs = length ss"
    by (cases fs rule: rev_cases) simp_all
  have run: "echoTag (fragments fs) ss =
      Inr (concat (map2 (\<lambda>f s. f @ ToString s) gs ss) @ g)"
    using echoTag_fragments_eq [of ss fs] by (simp add: fs len)
  have "render_spec fs ss =
      concat (map (\<lambda>k. fs ! k @ ToString (ss ! k)) [0..<length ss]) @ fs ! length ss"
    using assms by (simp add: render_spec_def foldl_append_concat)
  also have "map (\<lambda>k. fs ! k @ ToString (ss ! k)) [0..<length ss] =
        map2 (\<lambda>f s. f @ ToString s) gs ss"
    by (intro nth_equalityI) (simp_all add: fs len nth_append)
  also have "fs ! length ss = g"
    by (simp add: fs len [symmetric])
  finally have "render_spec fs ss = concat (map2 (\<lambda>f s. f @ ToString s) gs ss) @ g" .
  with run show ?thesis
    by (simp add: fs)
qed

theorem echoTag_render_spec_witness:
  "length [js ''x'', js ''y'', js ''z''] = length [JSNull, JSBoolean True] + 1 \<and>
   echoTag (fragments [js ''x'', js ''y'', js ''z'']) [JSNull, JSBoolean True] =
     Inr (render_spec [js ''x'', js ''y'', js ''z''] [JSNull, JSBoolean True]) \<and>
   render_spec [js ''x'', js ''y'', js ''z''] [JSNull, JSBoolean True] = js ''xnullytruez''"
  using echoTag_render_spec [of "[js ''x'', js ''y'', js ''z'']" "[JSNull, JSBoolean True]"]
  by (simp add: js_def)

text \<open>
  C3: when there is exactly one fragment more than substitutions, the returned
  string is as long as all fragments and all texts of the substitutions together.
\<close>

theorem echoTag_length:
  assumes "length fs = length ss + 1"
  shows "\<exists>s. echoTag (fragments fs) ss = Inr s \<and>
     length s = sum_list (map length fs) + sum_list (map (length \<circ> ToString) ss)"
proof -
  from assms obtain gs g where fs: "fs = gs @ [g]" and len: "length gs = length ss"
    by (cases fs rule: rev_cases) simp_all
  have "echoTag (fragments fs) ss =
     Inr (concat (map2 (\<lambda>f s. f @ ToString s) gs ss) @ g)"
    using echoTag_fragments_eq [of ss fs] by (simp add: fs len)
  then show ?thesis
    by (simp add: fs length_concat_map2 [OF len])
qed

theorem echoTag_length_witness:
  "length [js ''ab'', js ''c''] = length [JSBoolean True] + 1 \<and>
   (\<exists>s. echoTag (fragments [js ''ab'', js ''c'']) [JSBoolean True] = Inr s \<and> length s = 7)"
  using echoTag_length [of "[js ''ab'', js ''c'']" "[JSBoolean True]"]
  by (simp add: js_def eval_nat_numeral)

text \<open>
  C4: for every pair of arrays, also when the lengths do not fit, the call returns
  a string. The loop makes one round per substitution; round \<open>k\<close> appends what the
  read of \<open>literals[k]\<close> gives, which is the text \<open>undefined\<close> when \<open>k\<close> is outside
  the array, and then the text of substitution \<open>k\<close>; the read of
  \<open>literals[literals.length - 1]\<close> is appended last. The substitutions are values
  that have a textual form.
\<close>

theorem echoTag_total:
  "echoTag ls ss =
     Inr (concat (map (\<lambda>k. literal_text ls (int k) @ ToString (ss ! k)) [0..<length ss])
          @ literal_text ls (int (length ls) - 1)) \<and>
   i (echoTag_call () ls ss) = length ss"
proof -
  have "map (piece ls ss) [0..<length ss] =
        map (\<lambda>k. literal_text ls (int k) @ ToString (ss ! k)) [0..<length ss]"
    by (rule map_cong [OF refl]) (simp add: piece_eq)
  then have "echoTag ls ss =
     Inr (concat (map (\<lambda>k. literal_text ls (int k) @ ToString (ss ! k)) [0..<length ss])
          @ literal_text ls (int (length ls) - 1))"
    by (simp only: echoTag_eq literal_text_eq)
  then show ?thesis
    by (simp add: echoTag_call_eq)
qed

theorem echoTag_total_witness:
  "echoTag (fragments [js ''a'']) [JSString (js ''X''), JSString (js ''Y'')] =
     Inr (js ''aXundefinedYa'') \<and>
   echoTag [] [] = Inr (js ''undefined'')"
  using echoTag_total [of "fragments [js ''a'']" "[JSString (js ''X''), JSString (js ''Y'')]"]
    echoTag_total [of "[]" "[]"]
  by (simp add: literal_text_def fragments_def upt_rec js_def)

text \<open>
  C5: with one fragment and no substitution, the call returns that fragment as it
  is.
\<close>

theorem echoTag_single_fragment:
  "echoTag (fragments [f]) [] = Inr f"
  by (simp add: echoTag_eq fragments_def array_get_def)

text \<open>
  C6: the call of the test, \<^verbatim>\<open>echoTag`${count} items cost $${(count * price).toFixed(2)}.`\<close>
  with \<open>count = 10\<close> and the price text \<open>2.50\<close>, returns \<open>10 items cost $2.50.\<close>
\<close>

theorem echoTag_items_cost:
  "echoTag (fragments [js '''', js '' items cost $'', js ''.''])
     [JSNumber 10, JSString (js ''2.50'')] =
   Inr (js ''10 items cost $2.50.'')"
  by code_simp

text \<open>C7: the fragments \<open>a\<close>, \<open>b\<close> and the substitution \<open>X\<close> give \<open>aXb\<close>.\<close>

theorem echoTag_aXb:
  "echoTag (fragments [js ''a'', js ''b'']) [JSString (js ''X'')] = Inr (js ''aXb'')"
  by (simp add: echoTag_eq fragments_def piece_def array_get_def upt_rec js_def)

text \<open>
  C8, as the specification has it: two calls with the same fragments and
  substitutions return the same string, and a call changes nothing outside its
  result. With the object \<open>ticking\<close> as the substitution between \<open>a\<close> and \<open>b\<close>,
  the first call returns \<open>a1b\<close> and leaves the counter at 1, and the second call,
  on the same two arrays, returns \<open>a2b\<close>. With one fragment \<open>a\<close> and the
  substitutions \<open>X\<close>, \<open>Y\<close>, the call returns \<open>aXPYa\<close> where arrays inherit \<open>P\<close> at
  index 1, and \<open>aXundefinedYa\<close> where they inherit nothing.
\<close>

theorem echoTag_pure_counterexample:
  "fst (echoTag_in [Primitive (JSString (js ''a'')), Primitive (JSString (js ''b''))] [ticking]
     \<lparr>Array_prototype = Map.empty, heap = 0\<rparr>) = Inr (js ''a1b'') \<and>
   heap (snd (echoTag_in [Primitive (JSString (js ''a'')), Primitive (JSString (js ''b''))] [ticking]
     \<lparr>Array_prototype = Map.empty, heap = 0\<rparr>)) = 1 \<and>
   fst (echoTag_in [Primitive (JSString (js ''a'')), Primitive (JSString (js ''b''))] [ticking]
     (snd (echoTag_in [Primitive (JSString (js ''a'')), Primitive (JSString (js ''b''))] [ticking]
       \<lparr>Array_prototype = Map.empty, heap = 0\<rparr>))) = Inr (js ''a2b'') \<and>
   fst (echoTag_in [Primitive (JSString (js ''a''))]
      [Primitive (JSString (js ''X'')), Primitive (JSString (js ''Y''))]
      \<lparr>Array_prototype = [1 \<mapsto> JSString (js ''P'')], heap = ()\<rparr>) = Inr (js ''aXPYa'') \<and>
   fst (echoTag_in [Primitive (JSString (js ''a''))]
      [Primitive (JSString (js ''X'')), Primitive (JSString (js ''Y''))]
      \<lparr>Array_prototype = Map.empty, heap = ()\<rparr>) = Inr (js ''aXundefinedYa'')"
  by code_simp

text \<open>
  C8, amended: when the fragments and the substitutions are primitive values, and
  either no read of \<open>literals\<close> leaves the array (there are at least as many
  fragments as substitutions, and at least one; so whenever there is exactly one
  fragment more than substitutions) or arrays inherit no indexed property, the
  call returns \<open>echoTag ls ss\<close>, a value that depends on the two arrays alone,
  whatever the program state is, and it leaves the program state as it was.
\<close>

theorem echoTag_in_pure:
  assumes "(length ss \<le> length ls \<and> ls \<noteq> []) \<or> Array_prototype w = Map.empty"
  shows "echoTag_in (map Primitive ls) (map Primitive ss) w = (echoTag ls ss, w)"
proof -
  have "length ss \<le> length ls \<or> Array_prototype w = Map.empty"
    using assms by auto
  then have loop: "echoTag_loop_in (map Primitive ls) (map Primitive ss) 0 [] w =
      (concat (map (piece ls ss) [0..<length ss]), w)"
    using echoTag_loop_in_Primitive [of ss ls w 0 "[]"] by simp
  have "array_read w (map Primitive ls) (int (length ls) - 1) =
      Primitive (array_get ls (int (length ls) - 1))"
    using assms by (intro array_read_Primitive) auto
  then show ?thesis
    by (simp add: echoTag_in_def loop add_assign_in_Primitive echoTag_eq)
qed

theorem echoTag_in_pure_witness:
  "(length [JSString (js ''X'')] \<le> length (fragments [js ''a'', js ''b'']) \<and>
    fragments [js ''a'', js ''b''] \<noteq> []) \<and>
   echoTag_in (map Primitive (fragments [js ''a'', js ''b''])) (map Primitive [JSString (js ''X'')])
     \<lparr>Array_prototype = [7 \<mapsto> JSNull], heap = (3::nat)\<rparr> =
     (Inr (js ''aXb''), \<lparr>Array_prototype = [7 \<mapsto> JSNull], heap = (3::nat)\<rparr>)"
  using echoTag_in_pure [of "[JSString (js ''X'')]" "fragments [js ''a'', js ''b'']"
      "\<lparr>Array_prototype = [7 \<mapsto> JSNull], heap = (3::nat)\<rparr>"]
  by (simp add: echoTag_eq fragments_def piece_def array_get_def upt_rec js_def)

text \<open>
  C9: with more than one fragment more than substitutions, the fragments from index
  \<open>length ss\<close> to the last but one are left out: the result is the first
  \<open>length ss\<close> fragments, each followed by the text of its substitution, and then
  the last fragment; it is the result for the fragment list without the ones left
  out.
\<close>

theorem echoTag_omits_fragments:
  assumes "length ss + 1 < length fs"
  shows "echoTag (fragments fs) ss =
     Inr (concat (map2 (\<lambda>f s. f @ ToString s) (take (length ss) fs) ss) @ last fs) \<and>
   echoTag (fragments fs) ss = echoTag (fragments (take (length ss) fs @ [last fs])) ss"
proof -
  have "length ss < length fs"
    using assms by simp
  then have long: "echoTag (fragments fs) ss =
     Inr (concat (map2 (\<lambda>f s. f @ ToString s) (take (length ss) fs) ss) @ last fs)"
    by (rule echoTag_fragments_eq)
  have "length ss < length (take (length ss) fs @ [last fs])"
    using assms by simp
  then have "echoTag (fragments (take (length ss) fs @ [last fs])) ss =
     Inr (concat (map2 (\<lambda>f s. f @ ToString s) (take (length ss) fs) ss) @ last fs)"
    using assms by (simp add: echoTag_fragments_eq)
  with long show ?thesis
    by simp
qed

theorem echoTag_omits_fragments_witness:
  "length ([] :: jsvalue list) + 1 < length [js ''a'', js ''b'', js ''c''] \<and>
   echoTag (fragments [js ''a'', js ''b'', js ''c'']) [] = Inr (js ''c'')"
  using echoTag_omits_fragments [of "[]" "[js ''a'', js ''b'', js ''c'']"]
  by simp

text \<open>
  C10, at a component with the properties \<open>TypeScript\<close> and \<open>React\<close>, where no
  global named \<open>props\<close> exists: \<open>render\<close> does not return an element; the
  identifier \<open>props\<close> is not bound, and the read of it raises \<open>ReferenceError\<close>.
\<close>

theorem Hello_render_ReferenceError:
  "Hello_render Map.empty
     \<lparr>props = \<lparr>compiler = js ''TypeScript'', framework = js ''React''\<rparr>\<rparr> =
   Inl (ReferenceError ''props'')"
  by (simp add: Hello_render_def resolve_def module_scope_def)

end
